theory Spec2Isabelle
  imports Complex_Main
begin

section \<open>Scalars, vectors and frames\<close>

text \<open>
  The C++ type \<open>double\<close> is idealised as a real number: rounding, overflow to
  infinity and not-a-number values are outside this model. Every concrete input used
  below is a small dyadic number on which the floating-point operations of the code
  are exact.
\<close>

type_synonym double = real

datatype ChVector = ChVector (vx: double) (vy: double) (vz: double)

definition VNULL :: ChVector where
  "VNULL = ChVector 0 0 0"

definition VECT_X :: ChVector where
  "VECT_X = ChVector 1 0 0"

definition Vadd :: "ChVector \<Rightarrow> ChVector \<Rightarrow> ChVector" where
  "Vadd a b = ChVector (vx a + vx b) (vy a + vy b) (vz a + vz b)"

definition Vsub :: "ChVector \<Rightarrow> ChVector \<Rightarrow> ChVector" where
  "Vsub a b = ChVector (vx a - vx b) (vy a - vy b) (vz a - vz b)"

definition Vneg :: "ChVector \<Rightarrow> ChVector" where
  "Vneg a = ChVector (- vx a) (- vy a) (- vz a)"

definition Vscale :: "double \<Rightarrow> ChVector \<Rightarrow> ChVector" where
  "Vscale k a = ChVector (k * vx a) (k * vy a) (k * vz a)"

definition Vdot :: "ChVector \<Rightarrow> ChVector \<Rightarrow> double" where
  "Vdot a b = vx a * vx b + vy a * vy b + vz a * vz b"

definition Vcross :: "ChVector \<Rightarrow> ChVector \<Rightarrow> ChVector" where
  "Vcross a b = ChVector (vy a * vz b - vz a * vy b)
                         (vz a * vx b - vx a * vz b)
                         (vx a * vy b - vy a * vx b)"

definition Length :: "ChVector \<Rightarrow> double" where
  "Length a = sqrt (Vdot a a)"

text \<open>
  Modelled from the spec: \<open>Vnorm\<close> (declared in the vector header, which is not among
  the sources) is the "direction normalization" of the specification: the vector scaled
  to unit length. The specification calls its value on a vector of zero length undefined,
  so the model takes that value as the parameter \<open>zdir\<close> instead of fixing it.
\<close>

definition Vnorm :: "ChVector \<Rightarrow> ChVector \<Rightarrow> ChVector" where
  "Vnorm zdir v = (if Length v = 0 then zdir else Vscale (1 / Length v) v)"

text \<open>
  Modelled from the spec: \<open>ChMax\<close> and \<open>ChMin\<close> (not among the sources) are the
  maximum and the minimum of two scalars.
\<close>

definition ChMax :: "double \<Rightarrow> double \<Rightarrow> double" where
  "ChMax a b = (if a > b then a else b)"

definition ChMin :: "double \<Rightarrow> double \<Rightarrow> double" where
  "ChMin a b = (if a < b then a else b)"

datatype ChMatrix33 = ChMatrix33 (row0: ChVector) (row1: ChVector) (row2: ChVector)

definition Mat_identity :: ChMatrix33 where
  "Mat_identity = ChMatrix33 (ChVector 1 0 0) (ChVector 0 1 0) (ChVector 0 0 1)"

definition Mat_times :: "ChMatrix33 \<Rightarrow> ChVector \<Rightarrow> ChVector" where
  "Mat_times A v = ChVector (Vdot (row0 A) v) (Vdot (row1 A) v) (Vdot (row2 A) v)"

definition MatT_times :: "ChMatrix33 \<Rightarrow> ChVector \<Rightarrow> ChVector" where
  "MatT_times A v =
     Vadd (Vscale (vx v) (row0 A)) (Vadd (Vscale (vy v) (row1 A)) (Vscale (vz v) (row2 A)))"

text \<open>
  Modelled from the spec: the body frame (\<open>ChBodyFrame\<close>, not among the sources) is the
  external "frame adapter" that "converts between a body's local and world frames" and
  gives "a handle to its 6-wide generalized-velocity variable block". It is a position,
  a rotation matrix and the offset of the body's variable block in the global vectors.
\<close>

record ChBodyFrame =
  frame_pos :: ChVector
  Amatrix :: ChMatrix33
  Variables_offset :: nat

definition TransformPointLocalToParent :: "ChBodyFrame \<Rightarrow> ChVector \<Rightarrow> ChVector" where
  "TransformPointLocalToParent b p = Vadd (frame_pos b) (Mat_times (Amatrix b) p)"

definition TransformPointParentToLocal :: "ChBodyFrame \<Rightarrow> ChVector \<Rightarrow> ChVector" where
  "TransformPointParentToLocal b p = MatT_times (Amatrix b) (Vsub p (frame_pos b))"

definition TransformDirectionParentToLocal :: "ChBodyFrame \<Rightarrow> ChVector \<Rightarrow> ChVector" where
  "TransformDirectionParentToLocal b d = MatT_times (Amatrix b) d"

section \<open>Pointers, errors and caller vectors\<close>

text \<open>
  The element keeps raw pointers to its two bodies. A pointer is an address or null
  (\<open>None\<close>); the bodies live in a store that the element only reads. Dereferencing a null
  pointer and indexing a vector out of its range are undefined behaviour in the source;
  the model makes both an error result.
\<close>

type_synonym body_ptr = "nat option"

type_synonym body_store = "nat \<Rightarrow> ChBodyFrame"

datatype error = NullPointerDereference | IndexOutOfRange

definition deref :: "body_store \<Rightarrow> body_ptr \<Rightarrow> error + ChBodyFrame" where
  "deref h p = (case p of None \<Rightarrow> Inl NullPointerDereference | Some a \<Rightarrow> Inr (h a))"

type_synonym ChVectorDynamic = "double list"

definition vec_get :: "ChVectorDynamic \<Rightarrow> nat \<Rightarrow> error + double" where
  "vec_get V i = (if i < length V then Inr (V ! i) else Inl IndexOutOfRange)"

definition vec_set :: "ChVectorDynamic \<Rightarrow> nat \<Rightarrow> double \<Rightarrow> error + ChVectorDynamic" where
  "vec_set V i a = (if i < length V then Inr (V[i := a]) else Inl IndexOutOfRange)"

definition vec_add :: "ChVectorDynamic \<Rightarrow> nat \<Rightarrow> double \<Rightarrow> error + ChVectorDynamic" where
  "vec_add V i a = (if i < length V then Inr (V[i := V ! i + a]) else Inl IndexOutOfRange)"

section \<open>The scalar constraint primitive\<close>

datatype eChConstraintMode = CONSTRAINT_LOCK | CONSTRAINT_UNILATERAL

text \<open>
  One half of the Jacobian row: a vector of exactly six scalars. The source indexes it
  with the constants 0 to 5 only; \<open>row_set\<close> and \<open>row_get\<close> are the assignment to
  and the read of one entry.
\<close>

datatype ChRow6 = ChRow6 double double double double double double

fun row_set :: "nat \<Rightarrow> double \<Rightarrow> ChRow6 \<Rightarrow> ChRow6" where
  "row_set i v (ChRow6 a0 a1 a2 a3 a4 a5) =
     (if i = 0 then ChRow6 v a1 a2 a3 a4 a5
      else if i = 1 then ChRow6 a0 v a2 a3 a4 a5
      else if i = 2 then ChRow6 a0 a1 v a3 a4 a5
      else if i = 3 then ChRow6 a0 a1 a2 v a4 a5
      else if i = 4 then ChRow6 a0 a1 a2 a3 v a5
      else if i = 5 then ChRow6 a0 a1 a2 a3 a4 v
      else ChRow6 a0 a1 a2 a3 a4 a5)"

fun row_get :: "ChRow6 \<Rightarrow> nat \<Rightarrow> double" where
  "row_get (ChRow6 a0 a1 a2 a3 a4 a5) i =
     (if i = 0 then a0 else if i = 1 then a1 else if i = 2 then a2
      else if i = 3 then a3 else if i = 4 then a4 else a5)"

text \<open>
  The primitive \<open>Cx\<close> of the element: the Jacobian row split over the two bodies (six
  entries each), the multiplier \<open>l_i\<close>, the bias \<open>b_i\<close>, its mode and the two variable
  blocks it refers to (the addresses of the bodies that own them).
\<close>

record ChConstraintTwoBodies =
  Cq_a :: ChRow6
  Cq_b :: ChRow6
  l_i :: double
  b_i :: double
  constraint_mode :: eChConstraintMode
  variables_a :: body_ptr
  variables_b :: body_ptr

section \<open>The distance constraint element\<close>

datatype Mode = BILATERAL | UNILATERAL_MAXDISTANCE | UNILATERAL_MINDISTANCE

text \<open>
  The fields of \<open>ChLinkDistance\<close> that the source reads or writes. \<open>IsActive\<close> is the
  value the inherited query \<open>IsActive()\<close> returns; \<open>C0\<close> is \<open>C[0]\<close>.
\<close>

record ChLinkDistance =
  IsActive :: bool
  Body1 :: body_ptr
  Body2 :: body_ptr
  pos1 :: ChVector
  pos2 :: ChVector
  distance :: double
  curr_dist :: double
  mode :: Mode
  mode_sign :: double
  C0 :: double
  Cx :: ChConstraintTwoBodies
  react_force :: ChVector
  react_torque :: ChVector

definition SetMode :: "Mode \<Rightarrow> ChLinkDistance \<Rightarrow> ChLinkDistance" where
  "SetMode m s =
     s\<lparr>mode := m,
       mode_sign := (if m = UNILATERAL_MAXDISTANCE then - 1 else 1),
       Cx := (Cx s)\<lparr>constraint_mode :=
                      (if m = BILATERAL then CONSTRAINT_LOCK else CONSTRAINT_UNILATERAL)\<rparr>\<rparr>"

text \<open>
  The default constructor, applied to the object as its base classes left it: the
  member initialisers, then \<open>SetMode(Mode::BILATERAL)\<close>.
\<close>

definition ChLinkDistance_ctor :: "ChLinkDistance \<Rightarrow> ChLinkDistance" where
  "ChLinkDistance_ctor raw =
     SetMode BILATERAL (raw\<lparr>pos1 := VNULL, pos2 := VNULL, distance := 0, curr_dist := 0\<rparr>)"

definition SetVariables :: "body_ptr \<Rightarrow> body_ptr \<Rightarrow> ChLinkDistance \<Rightarrow> ChLinkDistance" where
  "SetVariables pa pb s = s\<lparr>Cx := (Cx s)\<lparr>variables_a := pa, variables_b := pb\<rparr>\<rparr>"

text \<open>
  \<open>Initialize\<close> returns an \<open>int\<close>; its only \<open>return\<close> statement is \<open>return true\<close>,
  the value 1. The bodies are dereferenced first for their variable blocks and then for
  the transforms.
\<close>

definition Initialize ::
  "body_store \<Rightarrow> body_ptr \<Rightarrow> body_ptr \<Rightarrow> bool \<Rightarrow> ChVector \<Rightarrow> ChVector \<Rightarrow> bool \<Rightarrow> double
     \<Rightarrow> Mode \<Rightarrow> ChLinkDistance \<Rightarrow> error + (int \<times> ChLinkDistance)" where
  "Initialize h mbody1 mbody2 pos_are_relative mpos1 mpos2 auto_distance mdistance m s =
     (let s1 = (SetMode m s)\<lparr>Body1 := mbody1, Body2 := mbody2\<rparr> in
      case deref h (Body1 s1) of Inl e \<Rightarrow> Inl e | Inr b1 \<Rightarrow>
      case deref h (Body2 s1) of Inl e \<Rightarrow> Inl e | Inr b2 \<Rightarrow>
      let s2 = SetVariables (Body1 s1) (Body2 s1) s1;
          s3 = (if pos_are_relative
                then s2\<lparr>pos1 := mpos1, pos2 := mpos2\<rparr>
                else s2\<lparr>pos1 := TransformPointParentToLocal b1 mpos1,
                        pos2 := TransformPointParentToLocal b2 mpos2\<rparr>);
          delta_pos = Vsub (TransformPointLocalToParent b1 (pos1 s3))
                           (TransformPointLocalToParent b2 (pos2 s3));
          s4 = s3\<lparr>curr_dist := Length delta_pos\<rparr>;
          s5 = (if auto_distance then s4\<lparr>distance := curr_dist s4\<rparr>
                else s4\<lparr>distance := mdistance\<rparr>)
      in Inr (1, s5\<lparr>C0 := mode_sign s5 * (curr_dist s5 - distance s5)\<rparr>))"

text \<open>
  \<open>Update\<close>: the inherited update of the parent class does nothing to the fields
  above. All twelve entries of the Jacobian row are assigned, then the violation.
\<close>

definition Update :: "ChVector \<Rightarrow> body_store \<Rightarrow> double \<Rightarrow> bool \<Rightarrow> ChLinkDistance
     \<Rightarrow> error + ChLinkDistance" where
  "Update zdir h mytime update_assets s =
     (case deref h (Body1 s) of Inl e \<Rightarrow> Inl e | Inr b1 \<Rightarrow>
      case deref h (Body2 s) of Inl e \<Rightarrow> Inl e | Inr b2 \<Rightarrow>
      let delta_pos = Vsub (TransformPointLocalToParent b1 (pos1 s))
                           (TransformPointLocalToParent b2 (pos2 s));
          s1 = s\<lparr>curr_dist := Length delta_pos\<rparr>;
          dir_F1_F2_W = Vnorm zdir delta_pos;
          dir_F1_F2_B2 = TransformDirectionParentToLocal b2 dir_F1_F2_W;
          dir_F1_F2_B1 = TransformDirectionParentToLocal b1 dir_F1_F2_W;
          Cq_B1_pos = dir_F1_F2_W;
          Cq_B2_pos = Vneg dir_F1_F2_W;
          Cq_B1_rot = Vneg (Vcross dir_F1_F2_B1 (pos1 s1));
          Cq_B2_rot = Vcross dir_F1_F2_B2 (pos2 s1);
          ms = mode_sign s1;
          s2 = s1\<lparr>Cx := (Cx s1)\<lparr>Cq_a :=
                  (row_set 5 (ms * vz Cq_B1_rot) (row_set 4 (ms * vy Cq_B1_rot)
                  (row_set 3 (ms * vx Cq_B1_rot) (row_set 2 (ms * vz Cq_B1_pos)
                  (row_set 1 (ms * vy Cq_B1_pos) (row_set 0 (ms * vx Cq_B1_pos)
                  (Cq_a (Cx s1))))))))\<rparr>\<rparr>;
          s3 = s2\<lparr>Cx := (Cx s2)\<lparr>Cq_b :=
                  (row_set 5 (ms * vz Cq_B2_rot) (row_set 4 (ms * vy Cq_B2_rot)
                  (row_set 3 (ms * vx Cq_B2_rot) (row_set 2 (ms * vz Cq_B2_pos)
                  (row_set 1 (ms * vy Cq_B2_pos) (row_set 0 (ms * vx Cq_B2_pos)
                  (Cq_b (Cx s2))))))))\<rparr>\<rparr>
      in Inr (s3\<lparr>C0 := mode_sign s3 * (curr_dist s3 - distance s3)\<rparr>))"

section \<open>State bookkeeping functions\<close>

definition IntStateGatherReactions ::
  "nat \<Rightarrow> ChVectorDynamic \<Rightarrow> ChLinkDistance \<Rightarrow> error + ChVectorDynamic" where
  "IntStateGatherReactions off_L L s = vec_set L off_L (- vx (react_force s))"

definition IntStateScatterReactions ::
  "nat \<Rightarrow> ChVectorDynamic \<Rightarrow> ChLinkDistance \<Rightarrow> error + ChLinkDistance" where
  "IntStateScatterReactions off_L L s =
     (case vec_get L off_L of Inl e \<Rightarrow> Inl e | Inr l \<Rightarrow>
      Inr (s\<lparr>react_force := ChVector (- l) 0 0, react_torque := VNULL\<rparr>))"

text \<open>
  Modelled from the spec: \<open>MultiplyTandAdd\<close> of the primitive (not among the sources)
  "adds signedJacobianTranspose \<cdot> multiplier \<cdot> scale into the caller's residual vector":
  each half of the row, times the given factor, is added at the offset of its body's
  variable block.
\<close>

fun add_block ::
  "ChRow6 \<Rightarrow> double \<Rightarrow> nat \<Rightarrow> nat list \<Rightarrow> ChVectorDynamic \<Rightarrow> error + ChVectorDynamic" where
  "add_block Cq l off [] R = Inr R"
| "add_block Cq l off (i # js) R =
     (case vec_add R (off + i) (row_get Cq i * l) of
        Inl e \<Rightarrow> Inl e
      | Inr R' \<Rightarrow> add_block Cq l off js R')"

definition MultiplyTandAdd ::
  "body_store \<Rightarrow> ChConstraintTwoBodies \<Rightarrow> ChVectorDynamic \<Rightarrow> double
     \<Rightarrow> error + ChVectorDynamic" where
  "MultiplyTandAdd h cx R l =
     (case deref h (variables_a cx) of Inl e \<Rightarrow> Inl e | Inr ba \<Rightarrow>
      case add_block (Cq_a cx) l (Variables_offset ba) [0, 1, 2, 3, 4, 5] R of
        Inl e \<Rightarrow> Inl e
      | Inr R1 \<Rightarrow>
      case deref h (variables_b cx) of Inl e \<Rightarrow> Inl e | Inr bb \<Rightarrow>
      add_block (Cq_b cx) l (Variables_offset bb) [0, 1, 2, 3, 4, 5] R1)"

definition IntLoadResidual_CqL ::
  "body_store \<Rightarrow> nat \<Rightarrow> ChVectorDynamic \<Rightarrow> ChVectorDynamic \<Rightarrow> double \<Rightarrow> ChLinkDistance
     \<Rightarrow> error + ChVectorDynamic" where
  "IntLoadResidual_CqL h off_L R L c s =
     (if \<not> IsActive s then Inr R
      else case vec_get L off_L of Inl e \<Rightarrow> Inl e | Inr l \<Rightarrow>
           MultiplyTandAdd h (Cx s) R (l * c))"

definition IntLoadConstraint_C ::
  "nat \<Rightarrow> ChVectorDynamic \<Rightarrow> double \<Rightarrow> bool \<Rightarrow> double \<Rightarrow> ChLinkDistance
     \<Rightarrow> error + ChVectorDynamic" where
  "IntLoadConstraint_C off_L Qc c do_clamp recovery_clamp s =
     (if \<not> IsActive s then Inr Qc
      else if do_clamp then
        (if mode s = BILATERAL
         then vec_add Qc off_L (ChMin (ChMax (c * C0 s) (- recovery_clamp)) recovery_clamp)
         else vec_add Qc off_L (ChMax (c * C0 s) (- recovery_clamp)))
      else vec_add Qc off_L (c * C0 s))"

definition IntToDescriptor ::
  "nat \<Rightarrow> ChVectorDynamic \<Rightarrow> ChVectorDynamic \<Rightarrow> nat \<Rightarrow> ChVectorDynamic \<Rightarrow> ChVectorDynamic
     \<Rightarrow> ChLinkDistance \<Rightarrow> error + ChLinkDistance" where
  "IntToDescriptor off_v v R off_L L Qc s =
     (if \<not> IsActive s then Inr s
      else case vec_get L off_L of Inl e \<Rightarrow> Inl e | Inr l \<Rightarrow>
           let s1 = s\<lparr>Cx := (Cx s)\<lparr>l_i := l\<rparr>\<rparr> in
           case vec_get Qc off_L of Inl e \<Rightarrow> Inl e | Inr q \<Rightarrow>
           Inr (s1\<lparr>Cx := (Cx s1)\<lparr>b_i := q\<rparr>\<rparr>))"

text \<open>
  \<open>IntFromDescriptor\<close> receives two vectors by reference, \<open>v\<close> and \<open>L\<close>; the model
  returns both.
\<close>

definition IntFromDescriptor ::
  "nat \<Rightarrow> ChVectorDynamic \<Rightarrow> nat \<Rightarrow> ChVectorDynamic \<Rightarrow> ChLinkDistance
     \<Rightarrow> error + (ChVectorDynamic \<times> ChVectorDynamic)" where
  "IntFromDescriptor off_v v off_L L s =
     (if \<not> IsActive s then Inr (v, L)
      else case vec_set L off_L (l_i (Cx s)) of Inl e \<Rightarrow> Inl e | Inr L' \<Rightarrow> Inr (v, L'))"

section \<open>Solver interfaces\<close>

text \<open>
  Modelled from the spec: the system descriptor (not among the sources) holds "the
  solver's active constraint set"; \<open>InsertConstraint\<close> appends the address of a
  primitive to it. \<open>cx_addr\<close> is the address \<open>&Cx\<close> of the element's primitive.
\<close>

type_synonym ChSystemDescriptor = "nat list"

definition InjectConstraints ::
  "nat \<Rightarrow> ChSystemDescriptor \<Rightarrow> ChLinkDistance \<Rightarrow> ChSystemDescriptor" where
  "InjectConstraints cx_addr mdescriptor s =
     (if \<not> IsActive s then mdescriptor else mdescriptor @ [cx_addr])"

definition ConstraintsBiReset :: "ChLinkDistance \<Rightarrow> ChLinkDistance" where
  "ConstraintsBiReset s = s\<lparr>Cx := (Cx s)\<lparr>b_i := 0\<rparr>\<rparr>"

definition ConstraintsBiLoad_C :: "double \<Rightarrow> double \<Rightarrow> bool \<Rightarrow> ChLinkDistance \<Rightarrow> ChLinkDistance" where
  "ConstraintsBiLoad_C factor recovery_clamp do_clamp s =
     (if \<not> IsActive s then s
      else if do_clamp then
        s\<lparr>Cx := (Cx s)\<lparr>b_i := b_i (Cx s)
                 + ChMin (ChMax (factor * C0 s) (- recovery_clamp)) recovery_clamp\<rparr>\<rparr>
      else s\<lparr>Cx := (Cx s)\<lparr>b_i := b_i (Cx s) + factor * C0 s\<rparr>\<rparr>)"

definition ConstraintsLoadJacobians :: "ChLinkDistance \<Rightarrow> ChLinkDistance" where
  "ConstraintsLoadJacobians s = s"

definition ConstraintsFetch_react :: "double \<Rightarrow> ChLinkDistance \<Rightarrow> ChLinkDistance" where
  "ConstraintsFetch_react factor s =
     s\<lparr>react_force := ChVector (- l_i (Cx s) * factor) 0 0, react_torque := VNULL\<rparr>"

section \<open>Deserialization\<close>

text \<open>
  \<open>ArchiveIn\<close>, with the four values it reads from the archive as arguments; the
  archive itself and the parent class's part are outside the model.
\<close>

definition ArchiveIn ::
  "body_store \<Rightarrow> double \<Rightarrow> ChVector \<Rightarrow> ChVector \<Rightarrow> Mode \<Rightarrow> ChLinkDistance
     \<Rightarrow> error + ChLinkDistance" where
  "ArchiveIn h distance_in pos1_in pos2_in mode_temp s =
     (let s1 = s\<lparr>distance := distance_in, pos1 := pos1_in, pos2 := pos2_in\<rparr> in
      case deref h (Body1 s1) of Inl e \<Rightarrow> Inl e | Inr b1 \<Rightarrow>
      case deref h (Body2 s1) of Inl e \<Rightarrow> Inl e | Inr b2 \<Rightarrow>
      Inr (SetMode mode_temp (SetVariables (Body1 s1) (Body2 s1) s1)))"

section \<open>Concrete configurations\<close>

text \<open>
  Bodies without rotation at a given world position, a store of two bodies (address 0
  and every other address), and an element as the default constructor leaves it.
\<close>

definition body_at :: "ChVector \<Rightarrow> nat \<Rightarrow> ChBodyFrame" where
  "body_at p off = \<lparr>frame_pos = p, Amatrix = Mat_identity, Variables_offset = off\<rparr>"

definition two_bodies :: "ChBodyFrame \<Rightarrow> ChBodyFrame \<Rightarrow> body_store" where
  "two_bodies b1 b2 a = (if a = 0 then b1 else b2)"

definition Cx_raw :: ChConstraintTwoBodies where
  "Cx_raw = \<lparr>Cq_a = ChRow6 0 0 0 0 0 0, Cq_b = ChRow6 0 0 0 0 0 0, l_i = 0, b_i = 0,
             constraint_mode = CONSTRAINT_UNILATERAL, variables_a = None, variables_b = None\<rparr>"

definition link_raw :: ChLinkDistance where
  "link_raw = \<lparr>IsActive = True, Body1 = None, Body2 = None, pos1 = ChVector 1 1 1,
               pos2 = ChVector 1 1 1, distance = 1, curr_dist = 1,
               mode = UNILATERAL_MAXDISTANCE, mode_sign = 0, C0 = 0, Cx = Cx_raw,
               react_force = VNULL, react_torque = VNULL\<rparr>"

definition link0 :: ChLinkDistance where
  "link0 = ChLinkDistance_ctor link_raw"

text \<open>Bodies at (0,0,0) and (2,0,0); at (0,0,0) and (12,0,0); both at the origin.\<close>

definition store_2 :: body_store where
  "store_2 = two_bodies (body_at VNULL 0) (body_at (ChVector 2 0 0) 6)"

definition store_12 :: body_store where
  "store_12 = two_bodies (body_at VNULL 0) (body_at (ChVector 12 0 0) 6)"

definition store_coincident :: body_store where
  "store_coincident = two_bodies (body_at VNULL 0) (body_at VNULL 6)"

text \<open>
  \<open>link_init2\<close>: \<open>link0\<close> after \<open>Initialize\<close> on \<open>store_2\<close> with anchors at the
  bodies' origins, automatic distance and mode BILATERAL. \<open>link_upd2\<close>: the same after
  one \<open>Update\<close> there.
\<close>

definition link_init2 :: ChLinkDistance where
  "link_init2 = link0\<lparr>Body1 := Some 0, Body2 := Some 1, distance := 2, curr_dist := 2,
                      Cx := (Cx link0)\<lparr>variables_a := Some 0, variables_b := Some 1\<rparr>\<rparr>"

definition link_upd2 :: ChLinkDistance where
  "link_upd2 = link_init2\<lparr>Cx := (Cx link_init2)\<lparr>Cq_a := ChRow6 (- 1) 0 0 0 0 0,
                                                  Cq_b := ChRow6 1 0 0 0 0 0\<rparr>\<rparr>"

text \<open>
  \<open>link_min10\<close>: \<open>link0\<close> after \<open>Initialize\<close> on \<open>store_12\<close> with anchors at the
  bodies' origins, the explicit distance 2 and mode UNILATERAL_MINDISTANCE: the violation
  is 10. \<open>link_inactive\<close>: an inactive element whose primitive holds a bias and a
  multiplier.
\<close>

definition link_min10 :: ChLinkDistance where
  "link_min10 = link0\<lparr>Body1 := Some 0, Body2 := Some 1, distance := 2, curr_dist := 12,
                      mode := UNILATERAL_MINDISTANCE, C0 := 10,
                      Cx := (Cx link0)\<lparr>constraint_mode := CONSTRAINT_UNILATERAL,
                                        variables_a := Some 0, variables_b := Some 1\<rparr>\<rparr>"

definition link_inactive :: ChLinkDistance where
  "link_inactive = link_min10\<lparr>IsActive := False,
                              Cx := (Cx link_min10)\<lparr>l_i := 3, b_i := 5\<rparr>\<rparr>"

section \<open>Notions used in the statements\<close>

text \<open>
  The world-frame separation of the two anchors for bodies at the addresses \<open>a1\<close> and
  \<open>a2\<close> (the local variable \<open>delta_pos\<close> of \<open>Initialize\<close> and \<open>Update\<close>), and one
  half of a Jacobian row with the sign \<open>ms\<close>, the translational part \<open>p\<close> and the
  rotational part \<open>r\<close>.
\<close>

definition world_separation :: "body_store \<Rightarrow> nat \<Rightarrow> nat \<Rightarrow> ChLinkDistance \<Rightarrow> ChVector" where
  "world_separation h a1 a2 s =
     Vsub (TransformPointLocalToParent (h a1) (pos1 s))
          (TransformPointLocalToParent (h a2) (pos2 s))"

definition signed_row :: "double \<Rightarrow> ChVector \<Rightarrow> ChVector \<Rightarrow> ChRow6" where
  "signed_row ms p r = ChRow6 (ms * vx p) (ms * vy p) (ms * vz p)
                              (ms * vx r) (ms * vy r) (ms * vz r)"

text \<open>
  The consistency of the triple (mode, sign convention, constraint kind) as the
  specification words it: the sign is -1 if and only if the mode is the maximum-distance
  bound and +1 otherwise; the primitive is locked if and only if the mode is the equality
  and one-sided otherwise.
\<close>

definition mode_triple_consistent :: "ChLinkDistance \<Rightarrow> bool" where
  "mode_triple_consistent s =
     (((mode_sign s = - 1) = (mode s = UNILATERAL_MAXDISTANCE))
      \<and> mode_sign s = (if mode s = UNILATERAL_MAXDISTANCE then - 1 else 1)
      \<and> ((constraint_mode (Cx s) = CONSTRAINT_LOCK) = (mode s = BILATERAL))
      \<and> constraint_mode (Cx s)
          = (if mode s = BILATERAL then CONSTRAINT_LOCK else CONSTRAINT_UNILATERAL))"

section \<open>Auxiliary facts\<close>

lemmas vector_defs = VNULL_def VECT_X_def Vadd_def Vsub_def Vneg_def Vscale_def Vdot_def
  Vcross_def Length_def Mat_identity_def Mat_times_def MatT_times_def
  TransformPointLocalToParent_def TransformPointParentToLocal_def
  TransformDirectionParentToLocal_def

lemmas config_defs = body_at_def two_bodies_def Cx_raw_def link_raw_def link0_def
  store_2_def store_12_def store_coincident_def link_init2_def link_upd2_def
  link_min10_def link_inactive_def ChLinkDistance_ctor_def SetMode_def

lemma link0_eq:
  "link0 = \<lparr>IsActive = True, Body1 = None, Body2 = None, pos1 = VNULL,
            pos2 = VNULL, distance = 0, curr_dist = 0,
            mode = BILATERAL, mode_sign = 1, C0 = 0,
            Cx = Cx_raw\<lparr>constraint_mode := CONSTRAINT_LOCK\<rparr>,
            react_force = VNULL, react_torque = VNULL\<rparr>"
  by (simp add: config_defs)

text \<open>Assigning the six entries of a row one after the other gives the row of the six values.\<close>

lemma row_set_all:
  "row_set 5 a5 (row_set 4 a4 (row_set 3 a3 (row_set 2 a2 (row_set (Suc 0) a1 (row_set 0 a0 r)))))
     = ChRow6 a0 a1 a2 a3 a4 a5"
  by (cases r) simp

lemma Length_Vsub_self: "Length (Vsub p p) = 0"
  by (simp add: Length_def Vsub_def Vdot_def)

text \<open>\<open>Update\<close> and \<open>Initialize\<close> in closed form when both body pointers are set.\<close>

lemma Update_Some:
  assumes "Body1 s = Some a1" and "Body2 s = Some a2"
  shows "Update zdir h t ua s =
     (let d = world_separation h a1 a2 s; n = Vnorm zdir d in
      Inr (s\<lparr>curr_dist := Length d,
             Cx := (Cx s)\<lparr>
               Cq_a := signed_row (mode_sign s) n
                         (Vneg (Vcross (TransformDirectionParentToLocal (h a1) n) (pos1 s))),
               Cq_b := signed_row (mode_sign s) (Vneg n)
                         (Vcross (TransformDirectionParentToLocal (h a2) n) (pos2 s))\<rparr>,
             C0 := mode_sign s * (Length d - distance s)\<rparr>))"
  using assms
  by (simp add: Update_def deref_def Let_def row_set_all world_separation_def signed_row_def)

lemma Initialize_Some:
  "Initialize h (Some a1) (Some a2) rel posA posB auto md m s =
     (let s3 = (SetVariables (Some a1) (Some a2)
                  ((SetMode m s)\<lparr>Body1 := Some a1, Body2 := Some a2\<rparr>))
                \<lparr>pos1 := (if rel then posA else TransformPointParentToLocal (h a1) posA),
                 pos2 := (if rel then posB else TransformPointParentToLocal (h a2) posB)\<rparr>;
          d = Length (world_separation h a1 a2 s3)
      in Inr (1, s3\<lparr>curr_dist := d, distance := (if auto then d else md),
                    C0 := mode_sign s3 * (d - (if auto then d else md))\<rparr>))"
  by (simp add: Initialize_def deref_def Let_def world_separation_def SetVariables_def SetMode_def)

lemma Initialize_None:
  "Initialize h None bodyB rel posA posB auto md m s = Inl NullPointerDereference"
  "Initialize h bodyA None rel posA posB auto md m s = Inl NullPointerDereference"
  by (simp_all add: Initialize_def deref_def Let_def split: option.splits)

lemma SetMode_consistent: "mode_triple_consistent (SetMode m s)"
  by (simp add: mode_triple_consistent_def SetMode_def)

lemma SetMode_mode: "mode (SetMode m s) = m"
  by (simp add: SetMode_def)

lemma consistent_other_fields:
  "mode s' = mode s \<Longrightarrow> mode_sign s' = mode_sign s
   \<Longrightarrow> constraint_mode (Cx s') = constraint_mode (Cx s)
   \<Longrightarrow> mode_triple_consistent s' = mode_triple_consistent s"
  by (simp add: mode_triple_consistent_def)

lemma Initialize_mode_fields:
  assumes "Initialize h bodyA bodyB rel posA posB auto md mi si = Inr (r, si')"
  shows "mode si' = mode (SetMode mi si)" "mode_sign si' = mode_sign (SetMode mi si)"
    "constraint_mode (Cx si') = constraint_mode (Cx (SetMode mi si))"
  using assms
  by (auto simp: Initialize_def SetVariables_def Let_def split: sum.splits if_splits)

lemma ArchiveIn_result:
  assumes "ArchiveIn ha distance_in pos1_in pos2_in ma sa = Inr sa'"
  shows "\<exists>t. sa' = SetMode ma t"
  using assms by (auto simp: ArchiveIn_def Let_def split: sum.splits)

text \<open>The concrete elements are what the operations of the source produce.\<close>

lemma Initialize_link_init2:
  "Initialize store_2 (Some 0) (Some 1) True VNULL VNULL True md BILATERAL link0
     = Inr (1, link_init2)"
  by (simp add: Initialize_def deref_def SetVariables_def Let_def config_defs vector_defs)

lemma Update_link_upd2:
  "Update zdir store_2 t ua link_init2 = Inr link_upd2"
  by (simp add: Update_def deref_def Let_def Vnorm_def config_defs vector_defs)

lemma Initialize_link_min10:
  "Initialize store_12 (Some 0) (Some 1) True VNULL VNULL False 2 UNILATERAL_MINDISTANCE link0
     = Inr (1, link_min10)"
  by (simp add: Initialize_def deref_def SetVariables_def Let_def config_defs vector_defs)

lemma ArchiveIn_link_min10:
  "ArchiveIn store_12 7 VNULL VNULL UNILATERAL_MAXDISTANCE link_min10
     = Inr (SetMode UNILATERAL_MAXDISTANCE (link_min10\<lparr>distance := 7\<rparr>))"
  by (simp add: ArchiveIn_def deref_def SetVariables_def Let_def link_min10_def link0_eq Cx_raw_def)

section \<open>The clamp of the violation residual\<close>

text \<open>
  Claim C1, as the code has it. For an active element in a one-sided mode and an offset
  inside the vector, \<open>IntLoadConstraint_C\<close> with clamping adds to the slot of the
  caller's vector the larger of \<open>c * C[0]\<close> and \<open>- recovery_clamp\<close>: the value is
  clamped from below at \<open>- recovery_clamp\<close> and not from above. A value at or above
  \<open>- recovery_clamp\<close> is added as it is; a smaller one is replaced by
  \<open>- recovery_clamp\<close>.
\<close>

theorem IntLoadConstraint_C_one_sided_lower_clamp:
  "IsActive s \<Longrightarrow> mode s \<noteq> BILATERAL \<Longrightarrow> off_L < length Qc \<Longrightarrow>
   IntLoadConstraint_C off_L Qc c True recovery_clamp s
     = Inr (Qc[off_L := Qc ! off_L + max (c * C0 s) (- recovery_clamp)])
   \<and> (- recovery_clamp \<le> c * C0 s \<longrightarrow>
        IntLoadConstraint_C off_L Qc c True recovery_clamp s
          = Inr (Qc[off_L := Qc ! off_L + c * C0 s]))
   \<and> (c * C0 s < - recovery_clamp \<longrightarrow>
        IntLoadConstraint_C off_L Qc c True recovery_clamp s
          = Inr (Qc[off_L := Qc ! off_L - recovery_clamp]))"
  by (simp add: IntLoadConstraint_C_def vec_add_def ChMax_def max_def)

text \<open>
  The element \<open>link_min10\<close> (minimum-distance mode, violation 10) with the limit 1/2:
  the scale 1 adds 10, the scale -1 adds -1/2.
\<close>

theorem IntLoadConstraint_C_one_sided_lower_clamp_witness:
  "IsActive link_min10 \<and> mode link_min10 \<noteq> BILATERAL \<and> (0::nat) < length [0::double]
   \<and> - (1/2) \<le> 1 * C0 link_min10
   \<and> IntLoadConstraint_C 0 [0] 1 True (1/2) link_min10 = Inr [10]
   \<and> - 1 * C0 link_min10 < - (1/2)
   \<and> IntLoadConstraint_C 0 [0] (- 1) True (1/2) link_min10 = Inr [- (1/2)]"
  using IntLoadConstraint_C_one_sided_lower_clamp [of link_min10 0 "[0]" 1 "1/2"]
    IntLoadConstraint_C_one_sided_lower_clamp [of link_min10 0 "[0]" "- 1" "1/2"]
  by (simp add: link_min10_def link0_eq)

text \<open>
  The claim as it was stated expects the contribution 1/2 for the limit 1/2 and the
  scaled violation 10 in a one-sided mode. The code adds 10.
\<close>

theorem IntLoadConstraint_C_one_sided_counterexample:
  "IsActive link_min10 \<and> mode link_min10 = UNILATERAL_MINDISTANCE \<and> 1 * C0 link_min10 = 10
   \<and> IntLoadConstraint_C 0 [0] 1 True (1/2) link_min10 = Inr [10]
   \<and> IntLoadConstraint_C 0 [0] 1 True (1/2) link_min10 \<noteq> Inr [1/2]"
  by (simp add: IntLoadConstraint_C_def vec_add_def ChMax_def link_min10_def link0_eq)

section \<open>The clamp of the bias\<close>

text \<open>
  Claim C2 says that \<open>ConstraintsBiLoad_C\<close> clamps by the same mode-dependent policy
  as \<open>IntLoadConstraint_C\<close>. The code of \<open>ConstraintsBiLoad_C\<close> does not look at the
  mode. On the active element \<open>link_min10\<close> (minimum-distance mode, violation 10), with
  the factor 1 and the limit 1/2, \<open>ConstraintsBiLoad_C\<close> adds 1/2 to the bias while
  \<open>IntLoadConstraint_C\<close> adds 10 to the caller's slot.
\<close>

theorem ConstraintsBiLoad_C_clamp_differs:
  "IsActive link_min10 \<and> mode link_min10 = UNILATERAL_MINDISTANCE \<and> C0 link_min10 = 10
   \<and> b_i (Cx link_min10) = 0
   \<and> b_i (Cx (ConstraintsBiLoad_C 1 (1/2) True link_min10)) = 1/2
   \<and> IntLoadConstraint_C 0 [0] 1 True (1/2) link_min10 = Inr [10]"
  by (simp add: ConstraintsBiLoad_C_def IntLoadConstraint_C_def vec_add_def ChMax_def ChMin_def
        link_min10_def link0_eq Cx_raw_def)

section \<open>Update on coincident anchors\<close>

text \<open>
  Claim C3, as the code has it. When both body pointers are set and the two anchors
  coincide in the world frame, \<open>Update\<close> returns, stores the current distance 0 and the
  violation \<open>mode_sign * (0 - distance)\<close>, and overwrites all twelve entries of the
  Jacobian row with the values computed from the direction \<open>zdir\<close> that \<open>Vnorm\<close> gives
  for the zero vector. Nothing of the previous row is kept; there is no guard. (Whether
  a not-a-number value can arise is a question about \<open>Vnorm\<close> on the zero vector in
  floating point, which this model does not decide.)
\<close>

theorem Update_coincident_overwrites_jacobian:
  assumes "Body1 s = Some a1" and "Body2 s = Some a2"
    and "TransformPointLocalToParent (h a1) (pos1 s) = TransformPointLocalToParent (h a2) (pos2 s)"
  shows "\<exists>s'. Update zdir h t ua s = Inr s'
           \<and> curr_dist s' = 0
           \<and> C0 s' = mode_sign s * (0 - distance s)
           \<and> Cq_a (Cx s') = signed_row (mode_sign s) zdir
                (Vneg (Vcross (TransformDirectionParentToLocal (h a1) zdir) (pos1 s)))
           \<and> Cq_b (Cx s') = signed_row (mode_sign s) (Vneg zdir)
                (Vcross (TransformDirectionParentToLocal (h a2) zdir) (pos2 s))"
proof -
  have d: "world_separation h a1 a2 s = Vsub (TransformPointLocalToParent (h a2) (pos2 s))
             (TransformPointLocalToParent (h a2) (pos2 s))"
    by (simp add: world_separation_def assms(3))
  have l: "Length (world_separation h a1 a2 s) = 0"
    unfolding d by (rule Length_Vsub_self)
  then have n: "Vnorm zdir (world_separation h a1 a2 s) = zdir"
    by (simp add: Vnorm_def)
  show ?thesis
    by (simp add: Update_Some [OF assms(1,2)] Let_def l n)
qed

text \<open>
  The element \<open>link_upd2\<close> after both bodies have moved to the origin, with the
  direction (1,0,0) for the zero vector.
\<close>

theorem Update_coincident_overwrites_jacobian_witness:
  "Body1 link_upd2 = Some 0 \<and> Body2 link_upd2 = Some 1
   \<and> TransformPointLocalToParent (store_coincident 0) (pos1 link_upd2)
       = TransformPointLocalToParent (store_coincident 1) (pos2 link_upd2)
   \<and> (\<exists>s'. Update VECT_X store_coincident 0 False link_upd2 = Inr s'
          \<and> curr_dist s' = 0 \<and> C0 s' = - 2
          \<and> Cq_a (Cx s') = ChRow6 1 0 0 0 0 0 \<and> Cq_b (Cx s') = ChRow6 (- 1) 0 0 0 0 0)"
proof -
  have b: "Body1 link_upd2 = Some 0" "Body2 link_upd2 = Some 1"
    by (simp_all add: config_defs)
  have c: "TransformPointLocalToParent (store_coincident 0) (pos1 link_upd2)
       = TransformPointLocalToParent (store_coincident 1) (pos2 link_upd2)"
    by (simp add: config_defs vector_defs)
  from Update_coincident_overwrites_jacobian [OF b c, of VECT_X 0 False]
  obtain s' where "Update VECT_X store_coincident 0 False link_upd2 = Inr s'"
    and "curr_dist s' = 0" and "C0 s' = mode_sign link_upd2 * (0 - distance link_upd2)"
    and "Cq_a (Cx s') = signed_row (mode_sign link_upd2) VECT_X
           (Vneg (Vcross (TransformDirectionParentToLocal (store_coincident 0) VECT_X)
              (pos1 link_upd2)))"
    and "Cq_b (Cx s') = signed_row (mode_sign link_upd2) (Vneg VECT_X)
           (Vcross (TransformDirectionParentToLocal (store_coincident 1) VECT_X) (pos2 link_upd2))"
    by blast
  then have "Update VECT_X store_coincident 0 False link_upd2 = Inr s'
          \<and> curr_dist s' = 0 \<and> C0 s' = - 2
          \<and> Cq_a (Cx s') = ChRow6 1 0 0 0 0 0 \<and> Cq_b (Cx s') = ChRow6 (- 1) 0 0 0 0 0"
    by (simp add: config_defs vector_defs signed_row_def)
  with b c show ?thesis by blast
qed

text \<open>
  The claim as it was stated expects \<open>Update\<close> to skip the Jacobian update on
  coincident anchors. On \<open>link_upd2\<close>, whose row is (-1,0,0,0,0,0) and (1,0,0,0,0,0)
  from the update at separation 2, the update at separation 0 replaces the row by
  (1,0,0,0,0,0) and (-1,0,0,0,0,0).
\<close>

theorem Update_coincident_counterexample:
  "Body1 link_upd2 = Some 0 \<and> Body2 link_upd2 = Some 1
   \<and> TransformPointLocalToParent (store_coincident 0) (pos1 link_upd2)
       = TransformPointLocalToParent (store_coincident 1) (pos2 link_upd2)
   \<and> Cq_a (Cx link_upd2) = ChRow6 (- 1) 0 0 0 0 0
   \<and> Cq_b (Cx link_upd2) = ChRow6 1 0 0 0 0 0
   \<and> Update VECT_X store_coincident 0 False link_upd2
       = Inr (link_upd2\<lparr>curr_dist := 0, C0 := - 2,
                Cx := (Cx link_upd2)\<lparr>Cq_a := ChRow6 1 0 0 0 0 0,
                                      Cq_b := ChRow6 (- 1) 0 0 0 0 0\<rparr>\<rparr>)"
  by (simp add: Update_def deref_def Let_def Vnorm_def config_defs vector_defs)

section \<open>Initialize and null body handles\<close>

text \<open>
  Claim C4, as the code has it. \<open>Initialize\<close> checks no precondition and has no
  failure result: with two non-null body handles it returns 1 (true); with a null body
  handle it dereferences the null pointer; it never returns 0.
\<close>

theorem Initialize_no_failure_result:
  "(\<exists>s'. Initialize h (Some a1) (Some a2) rel posA posB auto md m s = Inr (1, s'))
   \<and> Initialize h None bodyB rel posA posB auto md m s = Inl NullPointerDereference
   \<and> Initialize h bodyA None rel posA posB auto md m s = Inl NullPointerDereference
   \<and> Initialize h bodyA bodyB rel posA posB auto md m s \<noteq> Inr (0, t)"
proof -
  have "Initialize h bodyA bodyB rel posA posB auto md m s \<noteq> Inr (0, t)"
  proof (cases bodyA)
    case None
    then show ?thesis by (simp add: Initialize_None)
  next
    case A: (Some a)
    show ?thesis
    proof (cases bodyB)
      case None
      then show ?thesis by (simp add: Initialize_None)
    next
      case (Some b)
      with A show ?thesis by (simp add: Initialize_Some Let_def)
    qed
  qed
  then show ?thesis
    by (simp add: Initialize_None Initialize_Some Let_def)
qed

text \<open>
  The claim as it was stated expects a failure result and no crash for a null body
  handle. The call with a null first or second handle ends in the dereference of the null
  pointer.
\<close>

theorem Initialize_null_body_counterexample:
  "Initialize store_2 None (Some 1) True VNULL VNULL True 0 BILATERAL link0
     = Inl NullPointerDereference
   \<and> Initialize store_2 (Some 0) None True VNULL VNULL True 0 BILATERAL link0
     = Inl NullPointerDereference"
  by (simp add: Initialize_None)

section \<open>The activity gate\<close>

text \<open>
  Claim C5, as the code has it. On an inactive element the gated operations
  (\<open>IntLoadResidual_CqL\<close>, \<open>IntLoadConstraint_C\<close>, \<open>IntToDescriptor\<close>,
  \<open>IntFromDescriptor\<close>, \<open>InjectConstraints\<close>, \<open>ConstraintsBiLoad_C\<close>) and the empty
  \<open>ConstraintsLoadJacobians\<close> leave the element and all caller-supplied vectors and the
  descriptor unchanged. \<open>ConstraintsBiReset\<close> and \<open>ConstraintsFetch_react\<close> have no
  gate: also on an inactive element the first sets the bias to zero and the second sets
  the reaction force to \<open>(- l_i * factor, 0, 0)\<close> and the reaction torque to zero.
\<close>

theorem inactive_gated_operations_noop:
  assumes "\<not> IsActive s"
  shows "IntLoadResidual_CqL h off_L R L c s = Inr R
   \<and> IntLoadConstraint_C off_L Qc c do_clamp recovery_clamp s = Inr Qc
   \<and> IntToDescriptor off_v v R off_L L Qc s = Inr s
   \<and> IntFromDescriptor off_v v off_L L s = Inr (v, L)
   \<and> InjectConstraints cx_addr mdescriptor s = mdescriptor
   \<and> ConstraintsBiLoad_C factor recovery_clamp do_clamp s = s
   \<and> ConstraintsLoadJacobians s = s
   \<and> b_i (Cx (ConstraintsBiReset s)) = 0
   \<and> react_force (ConstraintsFetch_react factor s) = ChVector (- l_i (Cx s) * factor) 0 0
   \<and> react_torque (ConstraintsFetch_react factor s) = VNULL"
  using assms
  by (simp add: IntLoadResidual_CqL_def IntLoadConstraint_C_def IntToDescriptor_def
      IntFromDescriptor_def InjectConstraints_def ConstraintsBiLoad_C_def
      ConstraintsLoadJacobians_def ConstraintsBiReset_def ConstraintsFetch_react_def)

text \<open>The inactive element \<open>link_inactive\<close>, whose multiplier is 3 and whose bias is 5.\<close>

theorem inactive_gated_operations_noop_witness:
  "\<not> IsActive link_inactive
   \<and> IntLoadResidual_CqL store_12 0 [1, 2] [4] 1 link_inactive = Inr [1, 2]
   \<and> IntLoadConstraint_C 0 [8] 1 True (1/2) link_inactive = Inr [8]
   \<and> IntToDescriptor 0 [] [1, 2] 0 [4] [8] link_inactive = Inr link_inactive
   \<and> IntFromDescriptor 0 [] 0 [4] link_inactive = Inr ([], [4])
   \<and> InjectConstraints 0 [] link_inactive = []
   \<and> ConstraintsBiLoad_C 1 (1/2) True link_inactive = link_inactive
   \<and> ConstraintsLoadJacobians link_inactive = link_inactive
   \<and> b_i (Cx (ConstraintsBiReset link_inactive)) = 0
   \<and> react_force (ConstraintsFetch_react 1 link_inactive) = ChVector (- 3) 0 0"
proof -
  have a: "\<not> IsActive link_inactive"
    by (simp add: link_inactive_def)
  have l: "l_i (Cx link_inactive) = 3"
    by (simp add: link_inactive_def)
  from inactive_gated_operations_noop [OF a, of store_12 0 "[1, 2]" "[4]" 1 "[8]" True "1/2" 0
      "[]" 0 "[]" 1] a l
  show ?thesis
    by simp
qed

text \<open>
  The claim as it was stated expects \<open>ConstraintsBiReset\<close> and
  \<open>ConstraintsFetch_react\<close> to leave an inactive element unchanged. On
  \<open>link_inactive\<close> the first changes the bias from 5 to 0 and the second changes the
  reaction force from (0,0,0) to (-3,0,0).
\<close>

theorem inactive_ungated_counterexample:
  "\<not> IsActive link_inactive
   \<and> b_i (Cx link_inactive) = 5
   \<and> b_i (Cx (ConstraintsBiReset link_inactive)) = 0
   \<and> ConstraintsBiReset link_inactive \<noteq> link_inactive
   \<and> react_force link_inactive = ChVector 0 0 0
   \<and> react_force (ConstraintsFetch_react 1 link_inactive) = ChVector (- 3) 0 0
   \<and> ConstraintsFetch_react 1 link_inactive \<noteq> link_inactive"
proof -
  have a: "\<not> IsActive link_inactive" "b_i (Cx link_inactive) = 5"
    "react_force link_inactive = ChVector 0 0 0"
    by (simp_all add: link_inactive_def link_min10_def link0_eq VNULL_def)
  have b: "b_i (Cx (ConstraintsBiReset link_inactive)) = 0"
    by (simp add: ConstraintsBiReset_def)
  have c: "react_force (ConstraintsFetch_react 1 link_inactive) = ChVector (- 3) 0 0"
    by (simp add: ConstraintsFetch_react_def link_inactive_def)
  from a(2) b have d: "ConstraintsBiReset link_inactive \<noteq> link_inactive"
    by (metis zero_neq_numeral)
  from a(3) c have e: "ConstraintsFetch_react 1 link_inactive \<noteq> link_inactive"
    by (metis ChVector.inject neg_equal_0_iff_equal zero_neq_numeral)
  from a b c d e show ?thesis by blast
qed

section \<open>The violation\<close>

text \<open>
  Claim C6. On an element whose two body pointers are set, \<open>Update\<close> returns; it keeps
  the anchors, the target distance and the sign convention, stores as current distance
  the Euclidean norm of the world-frame separation of the two anchors for the body poses
  in the store, and stores the violation \<open>mode_sign * (curr_dist - distance)\<close>.
  \<open>Initialize\<close> with two non-null body handles returns 1 and leaves an element with the
  same two properties for the bodies it has bound.
\<close>

theorem violation_after_Update_and_Initialize:
  "(Body1 s = Some a1 \<and> Body2 s = Some a2 \<longrightarrow>
      (\<exists>s'. Update zdir h t ua s = Inr s'
         \<and> pos1 s' = pos1 s \<and> pos2 s' = pos2 s
         \<and> distance s' = distance s \<and> mode_sign s' = mode_sign s
         \<and> curr_dist s' = Length (world_separation h a1 a2 s')
         \<and> C0 s' = mode_sign s' * (curr_dist s' - distance s')))
   \<and> (\<exists>si'. Initialize hi (Some b1) (Some b2) rel posA posB auto md m si = Inr (1, si')
         \<and> Body1 si' = Some b1 \<and> Body2 si' = Some b2
         \<and> curr_dist si' = Length (world_separation hi b1 b2 si')
         \<and> C0 si' = mode_sign si' * (curr_dist si' - distance si'))"
proof -
  have u: "\<exists>s'. Update zdir h t ua s = Inr s'
         \<and> pos1 s' = pos1 s \<and> pos2 s' = pos2 s
         \<and> distance s' = distance s \<and> mode_sign s' = mode_sign s
         \<and> curr_dist s' = Length (world_separation h a1 a2 s')
         \<and> C0 s' = mode_sign s' * (curr_dist s' - distance s')"
    if "Body1 s = Some a1" and "Body2 s = Some a2"
    by (simp add: Update_Some [OF that] Let_def world_separation_def)
  have i: "\<exists>si'. Initialize hi (Some b1) (Some b2) rel posA posB auto md m si = Inr (1, si')
         \<and> Body1 si' = Some b1 \<and> Body2 si' = Some b2
         \<and> curr_dist si' = Length (world_separation hi b1 b2 si')
         \<and> C0 si' = mode_sign si' * (curr_dist si' - distance si')"
    by (simp add: Initialize_Some Let_def world_separation_def SetVariables_def SetMode_def)
  from u i show ?thesis by blast
qed

text \<open>
  The element \<open>link_min10\<close> (target distance 2, sign +1) after its second body has
  moved to (2,0,0): the current distance is 2 and the violation 0.
\<close>

theorem violation_after_Update_and_Initialize_witness:
  "Body1 link_min10 = Some 0 \<and> Body2 link_min10 = Some 1
   \<and> (\<exists>s'. Update VECT_X store_2 0 False link_min10 = Inr s'
          \<and> curr_dist s' = 2 \<and> distance s' = 2 \<and> mode_sign s' = 1 \<and> C0 s' = 0)"
proof -
  have b: "Body1 link_min10 = Some 0 \<and> Body2 link_min10 = Some 1"
    by (simp add: link_min10_def)
  have l: "Length (world_separation store_2 0 1 t) = 2" if "pos1 t = VNULL" "pos2 t = VNULL" for t
    by (simp add: world_separation_def that config_defs vector_defs)
  have f: "pos1 link_min10 = VNULL" "pos2 link_min10 = VNULL" "distance link_min10 = 2"
    "mode_sign link_min10 = 1"
    by (simp_all add: link_min10_def link0_eq)
  from violation_after_Update_and_Initialize [where s = link_min10 and ?a1.0 = 0 and ?a2.0 = 1
      and zdir = VECT_X and h = store_2 and t = 0 and ua = False] b
  obtain s' where s': "Update VECT_X store_2 0 False link_min10 = Inr s'"
    "pos1 s' = pos1 link_min10" "pos2 s' = pos2 link_min10"
    "distance s' = distance link_min10" "mode_sign s' = mode_sign link_min10"
    "curr_dist s' = Length (world_separation store_2 0 1 s')"
    "C0 s' = mode_sign s' * (curr_dist s' - distance s')"
    by blast
  from s' f have p: "pos1 s' = VNULL" "pos2 s' = VNULL"
    by simp_all
  from s' f l [OF p] have "Update VECT_X store_2 0 False link_min10 = Inr s'
          \<and> curr_dist s' = 2 \<and> distance s' = 2 \<and> mode_sign s' = 1 \<and> C0 s' = 0"
    by simp
  with b show ?thesis by blast
qed

section \<open>The mode, the sign convention and the constraint kind\<close>

text \<open>
  Claim C7. After \<open>SetMode m\<close> the mode is \<open>m\<close> and the triple of mode, sign
  convention and constraint kind is consistent: the sign is -1 if and only if \<open>m\<close> is
  the maximum-distance bound and +1 otherwise, and the primitive is locked if and only if
  \<open>m\<close> is the equality mode and one-sided otherwise. The same holds after the default
  constructor, after every \<open>Initialize\<close> that returns and after every \<open>ArchiveIn\<close>
  that returns.
\<close>

theorem SetMode_triple_consistent:
  "mode (SetMode m s) = m
   \<and> mode_triple_consistent (SetMode m s)
   \<and> mode_triple_consistent (ChLinkDistance_ctor raw)
   \<and> (Initialize h bodyA bodyB rel posA posB auto md mi si = Inr (r, si')
        \<longrightarrow> mode si' = mi \<and> mode_triple_consistent si')
   \<and> (ArchiveIn ha distance_in pos1_in pos2_in ma sa = Inr sa'
        \<longrightarrow> mode sa' = ma \<and> mode_triple_consistent sa')"
proof -
  have ctor: "mode_triple_consistent (ChLinkDistance_ctor raw)"
    unfolding ChLinkDistance_ctor_def by (rule SetMode_consistent)
  have init: "mode si' = mi \<and> mode_triple_consistent si'"
    if "Initialize h bodyA bodyB rel posA posB auto md mi si = Inr (r, si')"
  proof -
    note f = Initialize_mode_fields [OF that]
    have "mode_triple_consistent si' = mode_triple_consistent (SetMode mi si)"
      by (rule consistent_other_fields) (rule f)+
    with f(1) show ?thesis by (simp add: SetMode_consistent SetMode_mode)
  qed
  have arch: "mode sa' = ma \<and> mode_triple_consistent sa'"
    if "ArchiveIn ha distance_in pos1_in pos2_in ma sa = Inr sa'"
  proof -
    from ArchiveIn_result [OF that] obtain t where "sa' = SetMode ma t" ..
    then show ?thesis by (simp add: SetMode_consistent SetMode_mode)
  qed
  from ctor init arch show ?thesis
    by (simp add: SetMode_consistent SetMode_mode)
qed

text \<open>
  An \<open>Initialize\<close> in the equality mode and an \<open>ArchiveIn\<close> that reads the
  maximum-distance mode, both returning.
\<close>

theorem SetMode_triple_consistent_witness:
  "Initialize store_2 (Some 0) (Some 1) True VNULL VNULL True 0 BILATERAL link0
     = Inr (1, link_init2)
   \<and> ArchiveIn store_12 7 VNULL VNULL UNILATERAL_MAXDISTANCE link_min10
     = Inr (SetMode UNILATERAL_MAXDISTANCE (link_min10\<lparr>distance := 7\<rparr>))
   \<and> mode_triple_consistent link_init2
   \<and> mode_triple_consistent (SetMode UNILATERAL_MAXDISTANCE (link_min10\<lparr>distance := 7\<rparr>))
   \<and> mode_sign (SetMode UNILATERAL_MAXDISTANCE (link_min10\<lparr>distance := 7\<rparr>)) = - 1"
proof -
  have i: "Initialize store_2 (Some 0) (Some 1) True VNULL VNULL True 0 BILATERAL link0
     = Inr (1, link_init2)"
    by (rule Initialize_link_init2)
  have a: "ArchiveIn store_12 7 VNULL VNULL UNILATERAL_MAXDISTANCE link_min10
     = Inr (SetMode UNILATERAL_MAXDISTANCE (link_min10\<lparr>distance := 7\<rparr>))"
    by (rule ArchiveIn_link_min10)
  have m: "mode_sign (SetMode UNILATERAL_MAXDISTANCE (link_min10\<lparr>distance := 7\<rparr>)) = - 1"
    by (simp add: SetMode_def)
  from SetMode_triple_consistent [where h = store_2 and bodyA = "Some 0" and bodyB = "Some 1"
      and rel = True and posA = VNULL and posB = VNULL and auto = True and md = 0
      and mi = BILATERAL and si = link0 and r = 1 and si' = link_init2
      and ha = store_12 and distance_in = 7 and pos1_in = VNULL and pos2_in = VNULL
      and ma = UNILATERAL_MAXDISTANCE and sa = link_min10
      and sa' = "SetMode UNILATERAL_MAXDISTANCE (link_min10\<lparr>distance := 7\<rparr>)"] i a m
  show ?thesis by simp
qed

section \<open>Round trips of the multiplier\<close>

text \<open>
  Claim C8. For an active element and an offset inside the vectors, \<open>IntToDescriptor\<close>
  returns, and \<open>IntFromDescriptor\<close> called next at the same offset writes into its
  vector \<open>L'\<close> exactly the multiplier \<open>L(off_L)\<close> that was pushed, and leaves the rest
  of \<open>L'\<close> and the vector \<open>v'\<close> as they were.
\<close>

theorem ToDescriptor_FromDescriptor_roundtrip:
  "IsActive s \<Longrightarrow> off_L < length L \<Longrightarrow> off_L < length Qc \<Longrightarrow> off_L < length L' \<Longrightarrow>
   \<exists>s'. IntToDescriptor off_v v R off_L L Qc s = Inr s'
        \<and> IntFromDescriptor off_v' v' off_L L' s' = Inr (v', L'[off_L := L ! off_L])"
  by (simp add: IntToDescriptor_def IntFromDescriptor_def vec_get_def vec_set_def Let_def)

text \<open>The multiplier 7 pushed at offset 1 comes back at offset 1.\<close>

theorem ToDescriptor_FromDescriptor_roundtrip_witness:
  "IsActive link_min10 \<and> (1::nat) < length [4, 7, 9 :: double]
   \<and> (1::nat) < length [3, 5 :: double] \<and> (1::nat) < length [0, 0 :: double]
   \<and> (\<exists>s'. IntToDescriptor 0 [] [] 1 [4, 7, 9] [3, 5] link_min10 = Inr s'
           \<and> IntFromDescriptor 0 [] 1 [0, 0] s' = Inr ([], [0, 7]))"
  using ToDescriptor_FromDescriptor_roundtrip
    [of link_min10 1 "[4, 7, 9]" "[3, 5]" "[0, 0]" 0 "[]" "[]" 0 "[]"]
  by (simp add: link_min10_def link0_eq)

section \<open>Initialize with the measured distance\<close>

text \<open>
  Claim C9. \<open>Initialize\<close> with two non-null body handles and \<open>auto_distance\<close> true
  returns 1 and binds the two bodies. It stores the anchors it was given (as they are when
  they are relative to the bodies, brought into each body's local frame otherwise), sets
  the target distance to the measured world-frame separation of exactly these anchors,
  which is also the current distance, and sets the violation to zero. For bodies at
  (0,0,0) and (2,0,0), of any orientation, with the anchors at the bodies' origins, the
  target distance is 2 and the violation 0; with the relative anchors (1,0,0) and (5,0,0)
  on unrotated bodies at the same positions, the target distance is 6.
\<close>

theorem Initialize_auto_distance:
  "(\<exists>s'. Initialize h (Some a1) (Some a2) rel posA posB True md m s = Inr (1, s')
       \<and> Body1 s' = Some a1 \<and> Body2 s' = Some a2
       \<and> pos1 s' = (if rel then posA else TransformPointParentToLocal (h a1) posA)
       \<and> pos2 s' = (if rel then posB else TransformPointParentToLocal (h a2) posB)
       \<and> distance s' =
           Length (Vsub (TransformPointLocalToParent (h a1)
                           (if rel then posA else TransformPointParentToLocal (h a1) posA))
                        (TransformPointLocalToParent (h a2)
                           (if rel then posB else TransformPointParentToLocal (h a2) posB)))
       \<and> distance s' = Length (world_separation h a1 a2 s')
       \<and> curr_dist s' = distance s'
       \<and> C0 s' = 0)
   \<and> (\<exists>s'. Initialize
              (two_bodies \<lparr>frame_pos = ChVector 0 0 0, Amatrix = A1, Variables_offset = o1\<rparr>
                          \<lparr>frame_pos = ChVector 2 0 0, Amatrix = A2, Variables_offset = o2\<rparr>)
              (Some 0) (Some 1) True VNULL VNULL True md m s = Inr (1, s')
       \<and> pos1 s' = VNULL \<and> pos2 s' = VNULL
       \<and> distance s' = 2 \<and> C0 s' = 0)
   \<and> (\<exists>s'. Initialize store_2 (Some 0) (Some 1) True (ChVector 1 0 0) (ChVector 5 0 0)
              True md m s = Inr (1, s')
       \<and> pos1 s' = ChVector 1 0 0 \<and> pos2 s' = ChVector 5 0 0
       \<and> distance s' = 6 \<and> C0 s' = 0)"
proof -
  have g: "\<exists>s'. Initialize h (Some a1) (Some a2) rel posA posB True md m s = Inr (1, s')
       \<and> Body1 s' = Some a1 \<and> Body2 s' = Some a2
       \<and> pos1 s' = (if rel then posA else TransformPointParentToLocal (h a1) posA)
       \<and> pos2 s' = (if rel then posB else TransformPointParentToLocal (h a2) posB)
       \<and> distance s' =
           Length (Vsub (TransformPointLocalToParent (h a1)
                           (if rel then posA else TransformPointParentToLocal (h a1) posA))
                        (TransformPointLocalToParent (h a2)
                           (if rel then posB else TransformPointParentToLocal (h a2) posB)))
       \<and> distance s' = Length (world_separation h a1 a2 s')
       \<and> curr_dist s' = distance s'
       \<and> C0 s' = 0"
    by (simp add: Initialize_Some Let_def world_separation_def SetVariables_def SetMode_def)
  have o: "\<exists>s'. Initialize
              (two_bodies \<lparr>frame_pos = ChVector 0 0 0, Amatrix = A1, Variables_offset = o1\<rparr>
                          \<lparr>frame_pos = ChVector 2 0 0, Amatrix = A2, Variables_offset = o2\<rparr>)
              (Some 0) (Some 1) True VNULL VNULL True md m s = Inr (1, s')
       \<and> pos1 s' = VNULL \<and> pos2 s' = VNULL
       \<and> distance s' = 2 \<and> C0 s' = 0"
    by (simp add: Initialize_Some Let_def world_separation_def SetVariables_def SetMode_def
        two_bodies_def vector_defs)
  have r: "\<exists>s'. Initialize store_2 (Some 0) (Some 1) True (ChVector 1 0 0) (ChVector 5 0 0)
              True md m s = Inr (1, s')
       \<and> pos1 s' = ChVector 1 0 0 \<and> pos2 s' = ChVector 5 0 0
       \<and> distance s' = 6 \<and> C0 s' = 0"
    by (simp add: Initialize_Some Let_def world_separation_def SetVariables_def SetMode_def
        store_2_def body_at_def two_bodies_def vector_defs)
  from g o r show ?thesis by blast
qed

section \<open>Scatter and gather of the reaction\<close>

text \<open>
  Claim C10. For an offset inside the vectors, whether the element is active or not,
  \<open>IntStateScatterReactions\<close> returns, and \<open>IntStateGatherReactions\<close> called next at
  the same offset writes into its vector \<open>L'\<close> exactly the value \<open>L(off_L)\<close> that was
  scattered: the two negations cancel.
\<close>

theorem Scatter_Gather_roundtrip:
  "off_L < length L \<Longrightarrow> off_L < length L' \<Longrightarrow>
   \<exists>s'. IntStateScatterReactions off_L L s = Inr s'
        \<and> IntStateGatherReactions off_L L' s' = Inr (L'[off_L := L ! off_L])"
  by (simp add: IntStateScatterReactions_def IntStateGatherReactions_def vec_get_def vec_set_def)

text \<open>The value 7 scattered at offset 1 of an inactive element comes back at offset 1.\<close>

theorem Scatter_Gather_roundtrip_witness:
  "(1::nat) < length [4, 7, 9 :: double] \<and> (1::nat) < length [0, 0 :: double]
   \<and> \<not> IsActive link_inactive
   \<and> (\<exists>s'. IntStateScatterReactions 1 [4, 7, 9] link_inactive = Inr s'
           \<and> IntStateGatherReactions 1 [0, 0] s' = Inr [0, 7])"
  using Scatter_Gather_roundtrip [of 1 "[4, 7, 9]" "[0, 0]" link_inactive]
  by (simp add: link_inactive_def)

end
